theory Spec2Isabelle
  imports
    Complex_Main
    "HOL-Library.Char_ord"
    "HOL-Library.List_Lexorder"
begin

section \<open>India5G: preprocessing forecasts, site estimation and the cost engine\<close>

text \<open>
  The development embeds functions of \<^verbatim>\<open>scripts/preprocess.py\<close> and, for the cost
  engine, the behaviour recorded by \<^verbatim>\<open>tests/test_costs.py\<close>.

  Numbers: Python's \<^verbatim>\<open>int\<close> is \<^typ>\<open>int\<close>. A Python \<^verbatim>\<open>float\<close> is a rational
  number, so finite arithmetic is exact; where a NaN or an infinity can enter (the
  values of the forecasts, the division in \<^verbatim>\<open>estimate_sites\<close>) the special values
  are part of the type. Exceptions are values of \<open>py_error\<close>, returned on the left of a
  sum.
\<close>

subsection \<open>Python helpers\<close>

datatype py_error =
  IndexError | KeyError | ZeroDivisionError | TypeError | UnboundLocalError | OverflowError |
  ValueError

text \<open>\<^verbatim>\<open>round(x)\<close> on a float: to the nearest integer, ties to the even one.\<close>

definition py_round_int :: "rat \<Rightarrow> int" where
  "py_round_int x =
     (let f = \<lfloor>x\<rfloor>; d = x - of_int f
      in if d < 1 / 2 then f
         else if 1 / 2 < d then f + 1
         else if even f then f else f + 1)"

text \<open>\<^verbatim>\<open>int(x)\<close> on a float truncates towards zero.\<close>

definition py_int :: "rat \<Rightarrow> int" where
  "py_int x = (if 0 \<le> x then \<lfloor>x\<rfloor> else \<lceil>x\<rceil>)"

text \<open>\<^verbatim>\<open>round(x, ndigits)\<close>: the same rounding at the given decimal place.\<close>

definition py_round :: "rat \<Rightarrow> nat \<Rightarrow> rat" where
  "py_round x ndigits = of_int (py_round_int (x * 10 ^ ndigits)) / 10 ^ ndigits"

text \<open>\<^verbatim>\<open>str.lower()\<close> on ASCII text.\<close>

definition lower_char :: "char \<Rightarrow> char" where
  "lower_char c =
     (let n = (of_char c :: nat)
      in if 65 \<le> n \<and> n \<le> 90 then char_of (n + 32) else c)"

definition lower :: "string \<Rightarrow> string" where
  "lower s = map lower_char s"

text \<open>
  \<^verbatim>\<open>sorted(xs, key=k, reverse=True)\<close>: a stable sort in descending key order, elements
  with equal keys keeping their original order.
\<close>

definition sorted_reverse :: "('a \<Rightarrow> 'k::linorder) \<Rightarrow> 'a list \<Rightarrow> 'a list" where
  "sorted_reverse k xs = rev (sort_key k (rev xs))"

subsection \<open>Subscription and smartphone forecasts\<close>

text \<open>
  The penetration values and growth rates of the forecasts are floats read from CSV
  files and parameter tables: \<^verbatim>\<open>float(item[year])\<close> of an empty cell is a NaN. They are
  modelled as a rational number, an infinity or a NaN, with the arithmetic and the
  comparisons that Python gives the special values. Finite arithmetic is exact.
\<close>

datatype py_float = Num rat | PosInf | NegInf | NotANumber

text \<open>An infinity times a number: the sign decides, and zero gives a NaN.\<close>

definition signed_inf :: "rat \<Rightarrow> py_float" where
  "signed_inf s = (if s = 0 then NotANumber else if 0 < s then PosInf else NegInf)"

fun float_times :: "py_float \<Rightarrow> py_float \<Rightarrow> py_float" where
  "float_times (Num a) (Num b) = Num (a * b)"
| "float_times NotANumber y = NotANumber"
| "float_times x NotANumber = NotANumber"
| "float_times (Num a) PosInf = signed_inf a"
| "float_times (Num a) NegInf = signed_inf (- a)"
| "float_times PosInf (Num b) = signed_inf b"
| "float_times NegInf (Num b) = signed_inf (- b)"
| "float_times PosInf PosInf = PosInf"
| "float_times PosInf NegInf = NegInf"
| "float_times NegInf PosInf = NegInf"
| "float_times NegInf NegInf = PosInf"

text \<open>\<^verbatim>\<open>1 + (growth / 100)\<close>.\<close>

fun growth_factor :: "py_float \<Rightarrow> py_float" where
  "growth_factor (Num g) = Num (1 + g / 100)"
| "growth_factor x = x"

text \<open>
  \<^verbatim>\<open>x > c\<close> and \<^verbatim>\<open>x <= c\<close> for a number \<open>c\<close>: every comparison with a NaN is false.
\<close>

fun float_gt :: "py_float \<Rightarrow> rat \<Rightarrow> bool" where
  "float_gt (Num x) c = (c < x)"
| "float_gt PosInf c = True"
| "float_gt NegInf c = False"
| "float_gt NotANumber c = False"

fun float_le :: "py_float \<Rightarrow> rat \<Rightarrow> bool" where
  "float_le (Num x) c = (x \<le> c)"
| "float_le PosInf c = False"
| "float_le NegInf c = True"
| "float_le NotANumber c = False"

text \<open>\<^verbatim>\<open>round(x, ndigits)\<close> returns an infinity or a NaN as it is.\<close>

fun float_round :: "py_float \<Rightarrow> nat \<Rightarrow> py_float" where
  "float_round (Num x) ndigits = Num (py_round x ndigits)"
| "float_round x ndigits = x"

fun is_finite :: "py_float \<Rightarrow> bool" where
  "is_finite (Num x) = True"
| "is_finite x = False"

record telecom_circle =
  tc_code :: string
  category :: string
  subs_growth :: py_float
  sp_growth :: py_float

text \<open>A row of the historical subscription data; the year is a string there.\<close>

record subscription_row =
  sub_tc_code :: string
  sub_category :: string
  sub_penetration :: py_float
  sub_year :: string

record forecast_row =
  fc_tc_code :: string
  fc_category :: string
  fc_year :: int
  fc_penetration :: py_float

text \<open>
  The body of the loop of \<^verbatim>\<open>forecast_linear\<close> over \<^verbatim>\<open>range(start_point, end_point + 1)\<close>.
  The local \<^verbatim>\<open>penetration\<close> is unbound until the first assignment, hence an option.
\<close>

fun forecast_linear_loop ::
  "telecom_circle \<Rightarrow> subscription_row \<Rightarrow> int \<Rightarrow> int list \<Rightarrow> py_float option \<Rightarrow>
   forecast_row list \<Rightarrow> py_error + forecast_row list" where
  "forecast_linear_loop tc year_0 start_point [] pen output = Inr output"
| "forecast_linear_loop tc year_0 start_point (year # years) pen output =
     (case (if year = start_point
            then Some (float_times (sub_penetration year_0) (growth_factor (subs_growth tc)))
            else map_option (\<lambda>p. float_times p (growth_factor (subs_growth tc))) pen) of
        None \<Rightarrow> Inl UnboundLocalError
      | Some p \<Rightarrow>
          (let penetration = (if float_gt p 95 then Num 95 else p);
               output' =
                 (if year \<notin> set (map fc_year output)
                  then output @
                    [\<lparr>fc_tc_code = tc_code tc, fc_category = category tc, fc_year = year,
                      fc_penetration = float_round penetration 2\<rparr>]
                  else output)
           in forecast_linear_loop tc year_0 start_point years (Some penetration) output'))"

definition forecast_linear ::
  "telecom_circle \<Rightarrow> subscription_row list \<Rightarrow> int \<Rightarrow> int \<Rightarrow> int \<Rightarrow>
   py_error + forecast_row list" where
  "forecast_linear tc historical_data start_point end_point horizon =
     (case sorted_reverse sub_year historical_data of
        [] \<Rightarrow> Inl IndexError
      | year_0 # _ \<Rightarrow>
          forecast_linear_loop tc year_0 start_point [start_point..end_point] None [])"

record smartphone_row =
  sm_tc_code :: string
  sm_category :: string
  sm_cluster :: string
  sm_settlement_type :: string
  smartphone_penetration :: py_float

record smartphone_forecast_row =
  sf_tc_code :: string
  sf_category :: string
  sf_settlement_type :: string
  sf_year :: int
  sf_penetration :: py_float

text \<open>
  The inner loop of \<^verbatim>\<open>forecast_smartphones_linear\<close> over the years, for one item. It
  returns the value of \<^verbatim>\<open>penetration\<close> as well, since the variable outlives the loop.
\<close>

fun smartphones_years ::
  "telecom_circle \<Rightarrow> smartphone_row \<Rightarrow> int \<Rightarrow> int list \<Rightarrow> py_float option \<Rightarrow>
   smartphone_forecast_row list \<Rightarrow>
   py_error + (py_float option \<times> smartphone_forecast_row list)" where
  "smartphones_years tc item start_point [] pen output = Inr (pen, output)"
| "smartphones_years tc item start_point (year # years) pen output =
     (case (if year = start_point
            then Some (smartphone_penetration item)
            else map_option (\<lambda>p. float_times p (growth_factor (sp_growth tc))) pen) of
        None \<Rightarrow> Inl UnboundLocalError
      | Some p \<Rightarrow>
          (let penetration = (if float_gt p 90 then Num 90 else p)
           in smartphones_years tc item start_point years (Some penetration)
                (output @
                  [\<lparr>sf_tc_code = sm_tc_code item, sf_category = category tc,
                    sf_settlement_type = lower (sm_settlement_type item), sf_year = year,
                    sf_penetration = float_round penetration 2\<rparr>])))"

fun smartphones_items ::
  "telecom_circle \<Rightarrow> int \<Rightarrow> int \<Rightarrow> smartphone_row list \<Rightarrow> py_float option \<Rightarrow>
   smartphone_forecast_row list \<Rightarrow> py_error + smartphone_forecast_row list" where
  "smartphones_items tc start_point end_point [] pen output = Inr output"
| "smartphones_items tc start_point end_point (item # items) pen output =
     (case smartphones_years tc item start_point [start_point..end_point] pen output of
        Inl e \<Rightarrow> Inl e
      | Inr (pen', output') \<Rightarrow> smartphones_items tc start_point end_point items pen' output')"

definition forecast_smartphones_linear ::
  "smartphone_row list \<Rightarrow> telecom_circle \<Rightarrow> int \<Rightarrow> int \<Rightarrow>
   py_error + smartphone_forecast_row list" where
  "forecast_smartphones_linear data tc start_point end_point =
     smartphones_items tc start_point end_point data None []"

subsection \<open>Site estimation\<close>

text \<open>
  One row of the regional data that \<^verbatim>\<open>get_regional_data\<close> hands to
  \<^verbatim>\<open>estimate_sites\<close>. The population is \<^verbatim>\<open>None\<close> where the zonal statistics found
  no pixel.
\<close>

record regional_data =
  GID_0 :: string
  GID_id :: string
  GID_level :: string
  mean_luminosity_km2 :: rat
  population :: "rat option"
  area_km2 :: rat
  population_km2 :: rat
  coverage_GSM_percent :: rat
  coverage_3G_percent :: rat
  coverage_4G_percent :: rat

text \<open>The dictionary that \<^verbatim>\<open>estimate_sites\<close> appends for each region.\<close>

record site_estimate = regional_data +
  sites_estimated_total :: int
  sites_estimated_km2 :: rat
  sites_3G :: int
  sites_4G :: int
  backhaul_fiber :: int
  backhaul_copper :: int
  backhaul_wireless :: int
  backhaul_satellite :: int

record backhaul_item =
  tech :: string
  percentage :: int

text \<open>
  \<^verbatim>\<open>estimate_backhaul_type\<close>: the cumulative share of each technology, in the order of
  preference. The state of the two nested loops is the dictionary and \<^verbatim>\<open>perc_so_far\<close>.
\<close>

definition preference :: "string list" where
  "preference = [''fiber'', ''copper'', ''wireless'', ''satellite'']"

fun backhaul_type_items ::
  "string \<Rightarrow> backhaul_item list \<Rightarrow> (string \<rightharpoonup> rat) \<times> int \<Rightarrow> (string \<rightharpoonup> rat) \<times> int" where
  "backhaul_type_items t [] st = st"
| "backhaul_type_items t (item # items) (output, perc_so_far) =
     (if t = lower (tech item)
      then backhaul_type_items t items
             (output(t \<mapsto> of_int (percentage item + perc_so_far) / 100),
              perc_so_far + percentage item)
      else backhaul_type_items t items (output, perc_so_far))"

fun backhaul_type_techs ::
  "string list \<Rightarrow> backhaul_item list \<Rightarrow> (string \<rightharpoonup> rat) \<times> int \<Rightarrow> (string \<rightharpoonup> rat) \<times> int" where
  "backhaul_type_techs [] backhaul_lut st = st"
| "backhaul_type_techs (t # ts) backhaul_lut st =
     backhaul_type_techs ts backhaul_lut (backhaul_type_items t backhaul_lut st)"

definition estimate_backhaul_type :: "backhaul_item list \<Rightarrow> (string \<rightharpoonup> rat)" where
  "estimate_backhaul_type backhaul_lut =
     fst (backhaul_type_techs preference backhaul_lut (Map.empty, 0))"

text \<open>Subscripting a dictionary raises \<^verbatim>\<open>KeyError\<close> on a missing key.\<close>

definition getitem :: "(string \<rightharpoonup> 'v) \<Rightarrow> string \<Rightarrow> py_error + 'v" where
  "getitem d k = (case d k of None \<Rightarrow> Inl KeyError | Some v \<Rightarrow> Inr v)"

text \<open>
  The chained comparison \<^verbatim>\<open>lut[lo] < num <= lut[hi]\<close>: the second subscript is only
  evaluated when the first comparison holds.
\<close>

definition chained :: "(string \<rightharpoonup> rat) \<Rightarrow> string \<Rightarrow> rat \<Rightarrow> string \<Rightarrow> py_error + bool" where
  "chained lut lo num hi =
     (case getitem lut lo of
        Inl e \<Rightarrow> Inl e
      | Inr l \<Rightarrow>
          if l < num
          then (case getitem lut hi of Inl e \<Rightarrow> Inl e | Inr h \<Rightarrow> Inr (num \<le> h))
          else Inr False)"

record backhaul_counts =
  n_fiber :: int
  n_copper :: int
  n_wireless :: int
  n_satellite :: int

text \<open>The \<^verbatim>\<open>if\<close>/\<^verbatim>\<open>elif\<close> chain that assigns one drawn number to a technology.\<close>

definition assign_backhaul ::
  "(string \<rightharpoonup> rat) \<Rightarrow> rat \<Rightarrow> backhaul_counts \<Rightarrow> py_error + backhaul_counts" where
  "assign_backhaul lut num c =
     (case getitem lut ''fiber'' of
        Inl e \<Rightarrow> Inl e
      | Inr f \<Rightarrow>
          if num \<le> f then Inr (c\<lparr>n_fiber := n_fiber c + 1\<rparr>)
          else
            (case chained lut ''fiber'' num ''copper'' of
               Inl e \<Rightarrow> Inl e
             | Inr True \<Rightarrow> Inr (c\<lparr>n_copper := n_copper c + 1\<rparr>)
             | Inr False \<Rightarrow>
                 (case chained lut ''copper'' num ''wireless'' of
                    Inl e \<Rightarrow> Inl e
                  | Inr True \<Rightarrow> Inr (c\<lparr>n_wireless := n_wireless c + 1\<rparr>)
                  | Inr False \<Rightarrow>
                      (case getitem lut ''wireless'' of
                         Inl e \<Rightarrow> Inl e
                       | Inr w \<Rightarrow>
                           if w < num then Inr (c\<lparr>n_satellite := n_satellite c + 1\<rparr>)
                           else Inr c))))"

text \<open>
  The loop \<^verbatim>\<open>for i in range(1, int(round(sites_estimated_total)) + 1)\<close>. The random
  source is a sequence \<open>rng\<close> of numbers, of which the loop consumes one per iteration,
  starting at position \<open>k\<close>.
\<close>

fun backhaul_loop ::
  "(string \<rightharpoonup> rat) \<Rightarrow> (nat \<Rightarrow> rat) \<Rightarrow> nat \<Rightarrow> nat \<Rightarrow> backhaul_counts \<Rightarrow>
   py_error + backhaul_counts" where
  "backhaul_loop lut rng 0 k c = Inr c"
| "backhaul_loop lut rng (Suc n) k c =
     (case assign_backhaul lut (rng k) c of
        Inl e \<Rightarrow> Inl e
      | Inr c' \<Rightarrow> backhaul_loop lut rng n (Suc k) c')"

text \<open>
  \<^verbatim>\<open>towers / population_covered\<close> divides a numpy integer by a float: a zero divisor
  gives an infinity or a NaN rather than an exception; \<^verbatim>\<open>round\<close> then raises
  \<^verbatim>\<open>OverflowError\<close> on an infinite product and \<^verbatim>\<open>ValueError\<close> on a NaN.
\<close>

datatype np_float = Fin rat | Inf | NaN

definition np_divide :: "int \<Rightarrow> rat \<Rightarrow> np_float" where
  "np_divide a b =
     (if b \<noteq> 0 then Fin (of_int a / b) else if a = 0 then NaN else Inf)"

text \<open>
  The main loop of \<^verbatim>\<open>estimate_sites\<close> over the regions, sorted by population density.
  Its state is \<^verbatim>\<open>covered_pop_so_far\<close>, the position in the random sequence and the
  output list.
\<close>

fun estimate_sites_loop ::
  "rat \<Rightarrow> np_float \<Rightarrow> (string \<rightharpoonup> rat) \<Rightarrow> (nat \<Rightarrow> rat) \<Rightarrow> regional_data list \<Rightarrow>
   rat \<Rightarrow> nat \<Rightarrow> site_estimate list \<Rightarrow> py_error + site_estimate list" where
  "estimate_sites_loop population_covered towers_per_pop lut rng [] covered k output =
     Inr output"
| "estimate_sites_loop population_covered towers_per_pop lut rng (region # regions)
     covered k output =
     (case (if covered < population_covered
            then (case population region of
                    None \<Rightarrow> Inl TypeError
                  | Some p \<Rightarrow>
                      (case towers_per_pop of
                         Fin q \<Rightarrow> Inr (py_round_int (p * q), population_km2 region * q)
                       | Inf \<Rightarrow> if p = 0 then Inl ValueError else Inl OverflowError
                       | NaN \<Rightarrow> Inl ValueError))
            else Inr (0, 0)) of
        Inl e \<Rightarrow> Inl e
      | Inr (sites_total, sites_km2) \<Rightarrow>
          (case backhaul_loop lut rng (nat sites_total) k
                  \<lparr>n_fiber = 0, n_copper = 0, n_wireless = 0, n_satellite = 0\<rparr> of
             Inl e \<Rightarrow> Inl e
           | Inr c \<Rightarrow>
               estimate_sites_loop population_covered towers_per_pop lut rng regions
                 (case population region of None \<Rightarrow> covered | Some p \<Rightarrow> covered + p)
                 (k + nat sites_total)
                 (output @
                   [\<lparr>GID_0 = GID_0 region, GID_id = GID_id region,
                     GID_level = GID_level region,
                     mean_luminosity_km2 = mean_luminosity_km2 region,
                     population = population region, area_km2 = area_km2 region,
                     population_km2 = population_km2 region,
                     coverage_GSM_percent = coverage_GSM_percent region,
                     coverage_3G_percent = coverage_3G_percent region,
                     coverage_4G_percent = coverage_4G_percent region,
                     sites_estimated_total = sites_total,
                     sites_estimated_km2 = sites_km2,
                     sites_3G =
                       py_round_int (of_int sites_total * (coverage_3G_percent region / 100)),
                     sites_4G =
                       py_round_int (of_int sites_total * (coverage_4G_percent region / 100)),
                     backhaul_fiber = n_fiber c, backhaul_copper = n_copper c,
                     backhaul_wireless = n_wireless c,
                     backhaul_satellite = n_satellite c\<rparr>])))"

text \<open>
  \<^verbatim>\<open>estimate_sites\<close>. The two values read from CSV files, the covered share of the
  population (\<open>coverage\<close>) and the tower count of the telecom circle (\<open>towers\<close>), are
  arguments, as is the random sequence.
\<close>

definition total_population :: "regional_data list \<Rightarrow> int" where
  "total_population data = sum_list (map py_int (List.map_filter population data))"

definition estimate_sites ::
  "regional_data list \<Rightarrow> rat \<Rightarrow> int \<Rightarrow> backhaul_item list \<Rightarrow> (nat \<Rightarrow> rat) \<Rightarrow>
   py_error + site_estimate list" where
  "estimate_sites data coverage towers backhaul_lut rng =
     (let population_covered = of_int (total_population data) * (coverage / 100);
          towers_per_pop = np_divide towers population_covered;
          tower_backhaul_lut = estimate_backhaul_type backhaul_lut
      in estimate_sites_loop population_covered towers_per_pop tower_backhaul_lut rng
           (sorted_reverse population_km2 data) 0 0 [])"

subsection \<open>The cost engine\<close>

text \<open>
  The module \<^verbatim>\<open>india5g/costs.py\<close> is not among the sources; only its tests
  (\<^verbatim>\<open>tests/test_costs.py\<close>) are. The two allocators of regional and core network
  costs are therefore modelled from the specification (section 4.3), and follow the
  assertions of the tests wherever the tests fix a value.
\<close>

text \<open>
  The region record of the cost engine: the site estimate of a region with the fields that
  later stages add.
\<close>

record region = site_estimate +
  new_sites :: int
  upgraded_sites :: int
  site_density :: rat
  backhaul_new :: int

text \<open>
  The country parameters: the operator counts \<^verbatim>\<open>networks.baseline_urban\<close> and
  \<^verbatim>\<open>networks.baseline_rural\<close>, and the site density from which a region counts as urban.
\<close>

record country_parameters =
  baseline_urban :: rat
  baseline_rural :: rat
  urban_site_density :: rat

type_synonym costs = "string \<rightharpoonup> rat"

type_synonym core_lut = "string \<rightharpoonup> (string \<rightharpoonup> rat)"

text \<open>\<^verbatim>\<open>s.split(d)\<close> for a one-character separator, and positional access to its result.\<close>

fun split_on :: "char \<Rightarrow> string \<Rightarrow> string list" where
  "split_on d [] = [[]]"
| "split_on d (c # cs) =
     (if c = d then [] # split_on d cs
      else (case split_on d cs of [] \<Rightarrow> [[c]] | w # ws \<Rightarrow> (c # w) # ws))"

definition token :: "string \<Rightarrow> nat \<Rightarrow> py_error + string" where
  "token strategy i =
     (let ts = split_on CHR ''_'' strategy
      in if i < length ts then Inr (ts ! i) else Inl IndexError)"

text \<open>
  Modelled from the spec: the selection of the sharing factor, missing with
  \<^verbatim>\<open>costs.py\<close>. Regions at or above the urban density use
  \<^verbatim>\<open>networks.baseline_urban\<close>, the others \<^verbatim>\<open>networks.baseline_rural\<close>.
\<close>

definition sharing_factor :: "country_parameters \<Rightarrow> region \<Rightarrow> rat" where
  "sharing_factor cp r =
     (if urban_site_density cp \<le> site_density r then baseline_urban cp else baseline_rural cp)"

text \<open>Python's true division raises on a zero divisor.\<close>

definition py_truediv :: "rat \<Rightarrow> rat \<Rightarrow> py_error + rat" where
  "py_truediv a b = (if b = 0 then Inl ZeroDivisionError else Inr (a / b))"

text \<open>An allocator returns a number or a marker string.\<close>

datatype cost_value = Cost rat | Marker string

definition lut_assets :: "string list" where
  "lut_assets = [''regional_edge'', ''regional_node'', ''core_edge'', ''core_node'']"

text \<open>
  The catalog key of the unit cost of an asset type: the edges have one price, the nodes
  one per core generation, named by the second token of the strategy.
\<close>

definition unit_cost_key :: "string \<Rightarrow> string \<Rightarrow> py_error + string" where
  "unit_cost_key asset_type strategy =
     (if asset_type \<in> set [''regional_edge'', ''core_edge''] then Inr asset_type
      else (case token strategy 1 of
              Inl e \<Rightarrow> Inl e
            | Inr core \<Rightarrow> Inr (asset_type @ ''_'' @ core)))"

text \<open>
  Modelled from the spec: the allocation that \<^verbatim>\<open>regional_net_costs\<close> and
  \<^verbatim>\<open>core_costs\<close> share, missing with \<^verbatim>\<open>costs.py\<close>. An unrecognised asset type
  gives the marker \<^verbatim>\<open>'Asset name not in lut'\<close>; a region without sites gives 0 before
  anything is divided; a region absent from the look-up table contributes 0; otherwise
  the value of the table for the key \<^verbatim>\<open>GID_id + '_new'\<close> times the unit cost is divided
  by \<^verbatim>\<open>sites_estimated_total / sharing_factor\<close>.
\<close>

definition net_costs ::
  "region \<Rightarrow> string \<Rightarrow> costs \<Rightarrow> core_lut \<Rightarrow> string \<Rightarrow> country_parameters \<Rightarrow>
   py_error + cost_value" where
  "net_costs r asset_type costs core_lut strategy cp =
     (if asset_type \<notin> set lut_assets then Inr (Marker ''Asset name not in lut'')
      else if sites_estimated_total r = 0 then Inr (Cost 0)
      else
        (case core_lut asset_type of
           None \<Rightarrow> Inr (Cost 0)
         | Some by_region \<Rightarrow>
             (case by_region (GID_id r @ ''_new'') of
                None \<Rightarrow> Inr (Cost 0)
              | Some quantity \<Rightarrow>
                  (case unit_cost_key asset_type strategy of
                     Inl e \<Rightarrow> Inl e
                   | Inr key \<Rightarrow>
                       (case getitem costs key of
                          Inl e \<Rightarrow> Inl e
                        | Inr unit_cost \<Rightarrow>
                            (case py_truediv (of_int (sites_estimated_total r))
                                    (sharing_factor cp r) of
                               Inl e \<Rightarrow> Inl e
                             | Inr sites \<Rightarrow>
                                 (case py_truediv (unit_cost * quantity) sites of
                                    Inl e \<Rightarrow> Inl e
                                  | Inr c \<Rightarrow> Inr (Cost c))))))))"

text \<open>
  Modelled from the spec: \<^verbatim>\<open>regional_net_costs\<close>, missing with \<^verbatim>\<open>costs.py\<close>.
\<close>

definition regional_net_costs ::
  "region \<Rightarrow> string \<Rightarrow> costs \<Rightarrow> core_lut \<Rightarrow> string \<Rightarrow> country_parameters \<Rightarrow>
   py_error + cost_value" where
  "regional_net_costs = net_costs"

text \<open>
  Modelled from the spec: \<^verbatim>\<open>core_costs\<close>, missing with \<^verbatim>\<open>costs.py\<close>. The
  specification gives both allocators the marker for an unrecognised asset type, and the
  model follows it; \<^verbatim>\<open>test_core_costs\<close> expects 0 from \<^verbatim>\<open>core_costs\<close> there, so that
  branch of \<^verbatim>\<open>core_costs\<close> is left out of every statement below.
\<close>

definition core_costs ::
  "region \<Rightarrow> string \<Rightarrow> costs \<Rightarrow> core_lut \<Rightarrow> string \<Rightarrow> country_parameters \<Rightarrow>
   py_error + cost_value" where
  "core_costs = net_costs"

subsection \<open>Example inputs\<close>

text \<open>
  Inputs in the shape of the fixtures of the tests. The region is \<^verbatim>\<open>MWI.1.1.1_1\<close>, and
  the look-up table holds 2 new core nodes, 2 new regional nodes and 1000 m of new core
  edge for it, as the expected values of the tests show. The other values are chosen
  freely.
\<close>

definition example_region :: region where
  "example_region =
     \<lparr>GID_0 = ''MWI'', GID_id = ''MWI.1.1.1_1'', GID_level = ''GID_3'',
      mean_luminosity_km2 = 26, population = Some 10000, area_km2 = 2,
      population_km2 = 5000, coverage_GSM_percent = 100, coverage_3G_percent = 50,
      coverage_4G_percent = 0,
      sites_estimated_total = 6, sites_estimated_km2 = 3, sites_3G = 3, sites_4G = 0,
      backhaul_fiber = 0, backhaul_copper = 0, backhaul_wireless = 6,
      backhaul_satellite = 0,
      new_sites = 3, upgraded_sites = 3, site_density = 2, backhaul_new = 3\<rparr>"

definition example_costs :: costs where
  "example_costs =
     map_of
       [(''core_edge'', 10), (''regional_edge'', 5),
        (''core_node_epc'', 100000), (''regional_node_epc'', 100000),
        (''core_node_nsa'', 150000), (''regional_node_nsa'', 150000)]"

definition example_core_lut :: core_lut where
  "example_core_lut =
     map_of
       [(''core_edge'', map_of [(''MWI.1.1.1_1_new'', 1000), (''MWI.1.1.1_1_existing'', 1000)]),
        (''core_node'', map_of [(''MWI.1.1.1_1_new'', 2), (''MWI.1.1.1_1_existing'', 2)]),
        (''regional_edge'', map_of [(''MWI.1.1.1_1_new'', 1000), (''MWI.1.1.1_1_existing'', 1000)]),
        (''regional_node'', map_of [(''MWI.1.1.1_1_new'', 2), (''MWI.1.1.1_1_existing'', 2)])]"

definition example_country_parameters :: country_parameters where
  "example_country_parameters =
     \<lparr>baseline_urban = 3, baseline_rural = 3, urban_site_density = 1 / 2\<rparr>"

subsection \<open>Properties of the backhaul counts and example data\<close>

text \<open>
  The cumulative fractions of \<^verbatim>\<open>estimate_backhaul_type\<close> are non-decreasing in the
  order fiber, copper, wireless.
\<close>

definition nondecreasing :: "(string \<rightharpoonup> rat) \<Rightarrow> bool" where
  "nondecreasing lut =
     (case (lut ''fiber'', lut ''copper'', lut ''wireless'') of
        (Some f, Some c, Some w) \<Rightarrow> f \<le> c \<and> c \<le> w
      | _ \<Rightarrow> False)"

definition counts_nonneg :: "backhaul_counts \<Rightarrow> bool" where
  "counts_nonneg c =
     (0 \<le> n_fiber c \<and> 0 \<le> n_copper c \<and> 0 \<le> n_wireless c \<and> 0 \<le> n_satellite c)"

definition counts_sum :: "backhaul_counts \<Rightarrow> int" where
  "counts_sum c = n_fiber c + n_copper c + n_wireless c + n_satellite c"

text \<open>
  The invariant of the main loop of \<^verbatim>\<open>estimate_sites\<close>: what holds of every record
  appended so far.
\<close>

definition backhaul_ok :: "(string \<rightharpoonup> rat) \<Rightarrow> site_estimate \<Rightarrow> bool" where
  "backhaul_ok lut r =
     (0 \<le> backhaul_fiber r \<and> 0 \<le> backhaul_copper r \<and> 0 \<le> backhaul_wireless r \<and>
      0 \<le> backhaul_satellite r \<and>
      (nondecreasing lut \<longrightarrow>
         backhaul_fiber r + backhaul_copper r + backhaul_wireless r + backhaul_satellite r =
         max 0 (sites_estimated_total r)))"

text \<open>A telecom circle with its history, a smartphone survey, and a region with a backhaul mix.\<close>

definition example_circle :: telecom_circle where
  "example_circle =
     \<lparr>tc_code = ''AP'', category = ''A'', subs_growth = Num 2, sp_growth = Num 10\<rparr>"

definition example_history :: "subscription_row list" where
  "example_history =
     [\<lparr>sub_tc_code = ''AP'', sub_category = ''A'', sub_penetration = Num 90, sub_year = ''2017''\<rparr>,
      \<lparr>sub_tc_code = ''AP'', sub_category = ''A'', sub_penetration = Num 92, sub_year = ''2018''\<rparr>]"

definition example_survey :: "smartphone_row list" where
  "example_survey =
     [\<lparr>sm_tc_code = ''AP'', sm_category = ''A'', sm_cluster = ''C1'',
       sm_settlement_type = ''Urban'', smartphone_penetration = Num 85\<rparr>]"

text \<open>A history whose latest year has an empty cell, and a survey with an empty cell.\<close>

definition example_history_nan :: "subscription_row list" where
  "example_history_nan =
     [\<lparr>sub_tc_code = ''AP'', sub_category = ''A'', sub_penetration = Num 90, sub_year = ''2017''\<rparr>,
      \<lparr>sub_tc_code = ''AP'', sub_category = ''A'', sub_penetration = NotANumber,
       sub_year = ''2018''\<rparr>]"

definition example_survey_nan :: "smartphone_row list" where
  "example_survey_nan =
     [\<lparr>sm_tc_code = ''AP'', sm_category = ''A'', sm_cluster = ''C1'',
       sm_settlement_type = ''Rural'', smartphone_penetration = NotANumber\<rparr>]"

definition example_backhaul_lut :: "backhaul_item list" where
  "example_backhaul_lut =
     [\<lparr>tech = ''Wireless'', percentage = 20\<rparr>, \<lparr>tech = ''Fiber'', percentage = 50\<rparr>,
      \<lparr>tech = ''Copper'', percentage = 20\<rparr>, \<lparr>tech = ''Satellite'', percentage = 10\<rparr>]"

definition example_data :: "regional_data list" where
  "example_data =
     [\<lparr>GID_0 = ''IND'', GID_id = ''IND.1.1_1'', GID_level = ''GID_3'',
       mean_luminosity_km2 = 1, population = Some 1000, area_km2 = 100, population_km2 = 10,
       coverage_GSM_percent = 90, coverage_3G_percent = 50, coverage_4G_percent = 25\<rparr>]"

text \<open>A sequence of drawn numbers: 0, 1/4, 1/2, 3/4, 1, and 1 from then on.\<close>

definition example_draws :: "nat \<Rightarrow> rat" where
  "example_draws i = min 1 (of_nat i / 4)"

section \<open>Theorems\<close>

subsection \<open>The forecasts stay under their caps\<close>

lemma py_round_int_le: "x \<le> of_int n \<Longrightarrow> py_round_int x \<le> n"
proof -
  assume h: "x \<le> of_int n"
  have fl: "\<lfloor>x\<rfloor> \<le> n" using h by (simp add: floor_le_iff)
  show ?thesis
  proof (cases "\<lfloor>x\<rfloor> = n")
    case True
    then have "x = of_int n" using h by (metis of_int_floor_le order_antisym)
    then show ?thesis by (simp add: py_round_int_def)
  next
    case False
    then have "\<lfloor>x\<rfloor> + 1 \<le> n" using fl by simp
    then show ?thesis using fl by (simp add: py_round_int_def Let_def)
  qed
qed

lemma py_round_le: "x \<le> of_int n \<Longrightarrow> py_round x 2 \<le> of_int n"
proof -
  assume h: "x \<le> of_int n"
  have "x * 10 ^ 2 \<le> of_int (n * 100)" using h by simp
  then have "py_round_int (x * 10 ^ 2) \<le> n * 100" by (rule py_round_int_le)
  then have "(of_int (py_round_int (x * 10 ^ 2)) :: rat) \<le> of_int (n * 100)"
    by (simp only: of_int_le_iff)
  then show ?thesis by (simp add: py_round_def)
qed

text \<open>The capped and rounded value respects the cap unless it is a NaN.\<close>

lemma py_round_cap: "c = of_int n \<Longrightarrow> x \<le> c \<Longrightarrow> py_round x 2 \<le> c"
  using py_round_le [of x n] by simp

lemma capped_value:
  assumes c: "c = of_int n"
  shows "float_le (float_round (if float_gt p c then Num c else p) 2) c \<or>
         float_round (if float_gt p c then Num c else p) 2 = NotANumber"
proof (cases p)
  case (Num x)
  show ?thesis
  proof (cases "c < x")
    case True
    with Num py_round_cap [OF c, of c] show ?thesis by simp
  next
    case False
    with Num py_round_cap [OF c, of x] show ?thesis by simp
  qed
next
  case PosInf
  with py_round_cap [OF c, of c] show ?thesis by simp
qed simp_all

lemma capped_value_finite:
  assumes c: "c = of_int n" and p: "is_finite p"
  shows "is_finite (if float_gt p c then Num c else p) \<and>
         is_finite (float_round (if float_gt p c then Num c else p) 2) \<and>
         float_le (float_round (if float_gt p c then Num c else p) 2) c"
proof -
  from p obtain x where x: "p = Num x" by (cases p) simp_all
  show ?thesis
  proof (cases "c < x")
    case True
    with x py_round_cap [OF c, of c] show ?thesis by simp
  next
    case False
    with x py_round_cap [OF c, of x] show ?thesis by simp
  qed
qed

lemma times_finite: "is_finite a \<Longrightarrow> is_finite g \<Longrightarrow> is_finite (float_times a (growth_factor g))"
  by (cases a; cases g) simp_all

lemma forecast_linear_loop_cap:
  "forecast_linear_loop tc y0 sp years pen outp = Inr out \<Longrightarrow>
   \<forall>r \<in> set outp. float_le (fc_penetration r) 95 \<or> fc_penetration r = NotANumber \<Longrightarrow>
   \<forall>r \<in> set out. float_le (fc_penetration r) 95 \<or> fc_penetration r = NotANumber"
proof (induction years arbitrary: pen outp)
  case Nil
  then show ?case by simp
next
  case (Cons year years)
  let ?v = "if year = sp
            then Some (float_times (sub_penetration y0) (growth_factor (subs_growth tc)))
            else map_option (\<lambda>p. float_times p (growth_factor (subs_growth tc))) pen"
  from Cons.prems(1) obtain p where p: "?v = Some p"
    by (cases ?v) simp_all
  let ?pen = "if float_gt p 95 then Num 95 else p"
  let ?outp = "if year \<notin> set (map fc_year outp)
     then outp @ [\<lparr>fc_tc_code = tc_code tc, fc_category = category tc, fc_year = year,
                   fc_penetration = float_round ?pen 2\<rparr>]
     else outp"
  from Cons.prems(1) p have run: "forecast_linear_loop tc y0 sp years (Some ?pen) ?outp = Inr out"
    by (simp add: Let_def)
  have "float_le (float_round ?pen 2) 95 \<or> float_round ?pen 2 = NotANumber"
    by (rule capped_value [of 95 95]) simp
  with Cons.prems(2)
  have "\<forall>r \<in> set ?outp. float_le (fc_penetration r) 95 \<or> fc_penetration r = NotANumber"
    by simp
  with Cons.IH [OF run] show ?case by blast
qed

lemma forecast_linear_loop_finite:
  "forecast_linear_loop tc y0 sp years pen outp = Inr out \<Longrightarrow>
   is_finite (subs_growth tc) \<Longrightarrow> is_finite (sub_penetration y0) \<Longrightarrow>
   \<forall>p. pen = Some p \<longrightarrow> is_finite p \<Longrightarrow>
   \<forall>r \<in> set outp. is_finite (fc_penetration r) \<and> float_le (fc_penetration r) 95 \<Longrightarrow>
   \<forall>r \<in> set out. is_finite (fc_penetration r) \<and> float_le (fc_penetration r) 95"
proof (induction years arbitrary: pen outp)
  case Nil
  then show ?case by simp
next
  case (Cons year years)
  let ?v = "if year = sp
            then Some (float_times (sub_penetration y0) (growth_factor (subs_growth tc)))
            else map_option (\<lambda>p. float_times p (growth_factor (subs_growth tc))) pen"
  from Cons.prems(1) obtain p where p: "?v = Some p"
    by (cases ?v) simp_all
  have fp: "is_finite p"
    using p Cons.prems(2,3,4) times_finite by (auto split: if_splits)
  let ?pen = "if float_gt p 95 then Num 95 else p"
  let ?outp = "if year \<notin> set (map fc_year outp)
     then outp @ [\<lparr>fc_tc_code = tc_code tc, fc_category = category tc, fc_year = year,
                   fc_penetration = float_round ?pen 2\<rparr>]
     else outp"
  from Cons.prems(1) p have run: "forecast_linear_loop tc y0 sp years (Some ?pen) ?outp = Inr out"
    by (simp add: Let_def)
  have c: "is_finite ?pen \<and> is_finite (float_round ?pen 2) \<and> float_le (float_round ?pen 2) 95"
    by (rule capped_value_finite [of 95 95, OF _ fp]) simp
  with Cons.prems(5)
  have o: "\<forall>r \<in> set ?outp. is_finite (fc_penetration r) \<and> float_le (fc_penetration r) 95"
    by simp
  from c have pf: "\<forall>q. Some ?pen = Some q \<longrightarrow> is_finite q" by simp
  from Cons.IH [OF run Cons.prems(2) Cons.prems(3) pf o] show ?case .
qed

lemma smartphones_years_cap:
  "smartphones_years tc item sp years pen outp = Inr (pen', out) \<Longrightarrow>
   \<forall>r \<in> set outp. float_le (sf_penetration r) 90 \<or> sf_penetration r = NotANumber \<Longrightarrow>
   \<forall>r \<in> set out. float_le (sf_penetration r) 90 \<or> sf_penetration r = NotANumber"
proof (induction years arbitrary: pen outp)
  case Nil
  then show ?case by simp
next
  case (Cons year years)
  let ?v = "if year = sp then Some (smartphone_penetration item)
            else map_option (\<lambda>p. float_times p (growth_factor (sp_growth tc))) pen"
  from Cons.prems(1) obtain p where p: "?v = Some p"
    by (cases ?v) simp_all
  let ?pen = "if float_gt p 90 then Num 90 else p"
  let ?outp = "outp @ [\<lparr>sf_tc_code = sm_tc_code item, sf_category = category tc,
                    sf_settlement_type = lower (sm_settlement_type item), sf_year = year,
                    sf_penetration = float_round ?pen 2\<rparr>]"
  from Cons.prems(1) p have run:
    "smartphones_years tc item sp years (Some ?pen) ?outp = Inr (pen', out)"
    by (simp add: Let_def)
  have "float_le (float_round ?pen 2) 90 \<or> float_round ?pen 2 = NotANumber"
    by (rule capped_value [of 90 90]) simp
  with Cons.prems(2)
  have "\<forall>r \<in> set ?outp. float_le (sf_penetration r) 90 \<or> sf_penetration r = NotANumber"
    by simp
  with Cons.IH [OF run] show ?case by blast
qed

lemma smartphones_years_finite:
  "smartphones_years tc item sp years pen outp = Inr (pen', out) \<Longrightarrow>
   is_finite (sp_growth tc) \<Longrightarrow> is_finite (smartphone_penetration item) \<Longrightarrow>
   \<forall>p. pen = Some p \<longrightarrow> is_finite p \<Longrightarrow>
   \<forall>r \<in> set outp. is_finite (sf_penetration r) \<and> float_le (sf_penetration r) 90 \<Longrightarrow>
   (\<forall>p. pen' = Some p \<longrightarrow> is_finite p) \<and>
   (\<forall>r \<in> set out. is_finite (sf_penetration r) \<and> float_le (sf_penetration r) 90)"
proof (induction years arbitrary: pen outp)
  case Nil
  then show ?case by simp
next
  case (Cons year years)
  let ?v = "if year = sp then Some (smartphone_penetration item)
            else map_option (\<lambda>p. float_times p (growth_factor (sp_growth tc))) pen"
  from Cons.prems(1) obtain p where p: "?v = Some p"
    by (cases ?v) simp_all
  have fp: "is_finite p"
    using p Cons.prems(2,3,4) times_finite by (auto split: if_splits)
  let ?pen = "if float_gt p 90 then Num 90 else p"
  let ?outp = "outp @ [\<lparr>sf_tc_code = sm_tc_code item, sf_category = category tc,
                    sf_settlement_type = lower (sm_settlement_type item), sf_year = year,
                    sf_penetration = float_round ?pen 2\<rparr>]"
  from Cons.prems(1) p have run:
    "smartphones_years tc item sp years (Some ?pen) ?outp = Inr (pen', out)"
    by (simp add: Let_def)
  have c: "is_finite ?pen \<and> is_finite (float_round ?pen 2) \<and> float_le (float_round ?pen 2) 90"
    by (rule capped_value_finite [of 90 90, OF _ fp]) simp
  with Cons.prems(5)
  have o: "\<forall>r \<in> set ?outp. is_finite (sf_penetration r) \<and> float_le (sf_penetration r) 90"
    by simp
  from c have pf: "\<forall>q. Some ?pen = Some q \<longrightarrow> is_finite q" by simp
  from Cons.IH [OF run Cons.prems(2) Cons.prems(3) pf o] show ?case .
qed

lemma smartphones_items_cap:
  "smartphones_items tc sp ep items pen outp = Inr out \<Longrightarrow>
   \<forall>r \<in> set outp. float_le (sf_penetration r) 90 \<or> sf_penetration r = NotANumber \<Longrightarrow>
   \<forall>r \<in> set out. float_le (sf_penetration r) 90 \<or> sf_penetration r = NotANumber"
proof (induction items arbitrary: pen outp)
  case Nil
  then show ?case by simp
next
  case (Cons item items)
  from Cons.prems(1) obtain pen' outp' where
    y: "smartphones_years tc item sp [sp..ep] pen outp = Inr (pen', outp')" and
    r: "smartphones_items tc sp ep items pen' outp' = Inr out"
    by (auto split: sum.splits)
  from smartphones_years_cap [OF y Cons.prems(2)] Cons.IH [OF r] show ?case by blast
qed

lemma smartphones_items_finite:
  "smartphones_items tc sp ep items pen outp = Inr out \<Longrightarrow>
   is_finite (sp_growth tc) \<Longrightarrow> \<forall>item \<in> set items. is_finite (smartphone_penetration item) \<Longrightarrow>
   \<forall>p. pen = Some p \<longrightarrow> is_finite p \<Longrightarrow>
   \<forall>r \<in> set outp. is_finite (sf_penetration r) \<and> float_le (sf_penetration r) 90 \<Longrightarrow>
   \<forall>r \<in> set out. is_finite (sf_penetration r) \<and> float_le (sf_penetration r) 90"
proof (induction items arbitrary: pen outp)
  case Nil
  then show ?case by simp
next
  case (Cons item items)
  from Cons.prems(1) obtain pen' outp' where
    y: "smartphones_years tc item sp [sp..ep] pen outp = Inr (pen', outp')" and
    r: "smartphones_items tc sp ep items pen' outp' = Inr out"
    by (auto split: sum.splits)
  from Cons.prems(3) have fi: "is_finite (smartphone_penetration item)"
    and rest: "\<forall>item \<in> set items. is_finite (smartphone_penetration item)" by simp_all
  from smartphones_years_finite [OF y Cons.prems(2) fi Cons.prems(4) Cons.prems(5)]
  have pf: "\<forall>p. pen' = Some p \<longrightarrow> is_finite p"
    and o: "\<forall>r \<in> set outp'. is_finite (sf_penetration r) \<and> float_le (sf_penetration r) 90"
    by simp_all
  from Cons.IH [OF r Cons.prems(2) rest pf o] show ?case .
qed

lemma sorted_reverse_set: "set (sorted_reverse k xs) = set xs"
  by (simp add: sorted_reverse_def)

text \<open>
  Once \<^verbatim>\<open>penetration\<close> is bound the loops cannot fail, and the first year of the range
  binds it: both forecasts return for every input, but for an empty history, on which
  \<^verbatim>\<open>forecast_linear\<close> raises \<^verbatim>\<open>IndexError\<close>.
\<close>

lemma forecast_linear_loop_bound:
  "\<exists>out. forecast_linear_loop tc y0 sp years (Some p) outp = Inr out"
  by (induction years arbitrary: p outp) (simp_all add: Let_def)

lemma forecast_linear_loop_range:
  "\<exists>out. forecast_linear_loop tc y0 sp [sp..ep] None outp = Inr out"
proof (cases "sp \<le> ep")
  case True
  then have "[sp..ep] = sp # [sp + 1..ep]" by (simp add: upto_rec1)
  then show ?thesis using forecast_linear_loop_bound by (simp add: Let_def)
next
  case False
  then show ?thesis by simp
qed

lemma forecast_linear_returns:
  "historical_data \<noteq> [] \<Longrightarrow>
   \<exists>out. forecast_linear tc historical_data start_point end_point horizon = Inr out"
proof -
  assume "historical_data \<noteq> []"
  moreover have "length (sorted_reverse sub_year historical_data) = length historical_data"
    by (simp add: sorted_reverse_def)
  ultimately have "sorted_reverse sub_year historical_data \<noteq> []"
    by (metis length_0_conv)
  then obtain y0 ys where "sorted_reverse sub_year historical_data = y0 # ys"
    by (cases "sorted_reverse sub_year historical_data") auto
  then show ?thesis using forecast_linear_loop_range by (simp add: forecast_linear_def)
qed

lemma smartphones_years_bound:
  "\<exists>pen' out. smartphones_years tc item sp years (Some p) outp = Inr (pen', out)"
  by (induction years arbitrary: p outp) (simp_all add: Let_def)

lemma smartphones_years_range:
  "\<exists>pen' out. smartphones_years tc item sp [sp..ep] pen outp = Inr (pen', out)"
proof (cases "sp \<le> ep")
  case True
  then have "[sp..ep] = sp # [sp + 1..ep]" by (simp add: upto_rec1)
  then show ?thesis using smartphones_years_bound by (simp add: Let_def)
next
  case False
  then show ?thesis by simp
qed

lemma forecast_smartphones_linear_returns:
  "\<exists>out. forecast_smartphones_linear data tc start_point end_point = Inr out"
proof -
  have "\<exists>out. smartphones_items tc start_point end_point items pen outp = Inr out"
    for items pen outp
  proof (induction items arbitrary: pen outp)
    case Nil
    then show ?case by simp
  next
    case (Cons item items)
    obtain pen' outp' where
      "smartphones_years tc item start_point [start_point..end_point] pen outp =
       Inr (pen', outp')"
      using smartphones_years_range by blast
    then show ?case using Cons.IH by simp
  qed
  then show ?thesis by (simp add: forecast_smartphones_linear_def)
qed

text \<open>
  Claim C9, as amended. Every penetration value that \<^verbatim>\<open>forecast_linear\<close> emits is at
  most 95 or is a NaN, and every penetration value that \<^verbatim>\<open>forecast_smartphones_linear\<close>
  emits is at most 90 or is a NaN: the value is capped before it is rounded to two
  decimals, and a NaN passes the comparison with the cap. When the growth rate and the
  penetration values of the input are finite numbers, every emitted value is at most the
  cap.
\<close>

theorem forecast_penetration_capped:
  "(forecast_linear tc historical_data start_point end_point horizon = Inr out \<longrightarrow>
      (\<forall>r \<in> set out. float_le (fc_penetration r) 95 \<or> fc_penetration r = NotANumber) \<and>
      (is_finite (subs_growth tc) \<and>
       (\<forall>row \<in> set historical_data. is_finite (sub_penetration row)) \<longrightarrow>
         (\<forall>r \<in> set out. float_le (fc_penetration r) 95))) \<and>
   (forecast_smartphones_linear data tc start_point end_point = Inr out' \<longrightarrow>
      (\<forall>r \<in> set out'. float_le (sf_penetration r) 90 \<or> sf_penetration r = NotANumber) \<and>
      (is_finite (sp_growth tc) \<and>
       (\<forall>item \<in> set data. is_finite (smartphone_penetration item)) \<longrightarrow>
         (\<forall>r \<in> set out'. float_le (sf_penetration r) 90)))"
proof (intro conjI impI)
  assume f: "forecast_linear tc historical_data start_point end_point horizon = Inr out"
  then obtain y0 ys where
    s: "sorted_reverse sub_year historical_data = y0 # ys" and
    l: "forecast_linear_loop tc y0 start_point [start_point..end_point] None [] = Inr out"
    by (auto simp: forecast_linear_def split: list.splits)
  from forecast_linear_loop_cap [OF l]
  show "\<forall>r \<in> set out. float_le (fc_penetration r) 95 \<or> fc_penetration r = NotANumber"
    by simp
  assume fin: "is_finite (subs_growth tc) \<and>
    (\<forall>row \<in> set historical_data. is_finite (sub_penetration row))"
  from s have "y0 \<in> set historical_data"
    using sorted_reverse_set [of sub_year historical_data] by (metis list.set_intros(1))
  with fin have y: "is_finite (sub_penetration y0)" by blast
  from fin have g: "is_finite (subs_growth tc)" by blast
  from forecast_linear_loop_finite [OF l g y]
  show "\<forall>r \<in> set out. float_le (fc_penetration r) 95"
    by simp
next
  assume f: "forecast_smartphones_linear data tc start_point end_point = Inr out'"
  then have l: "smartphones_items tc start_point end_point data None [] = Inr out'"
    by (simp add: forecast_smartphones_linear_def)
  from smartphones_items_cap [OF l]
  show "\<forall>r \<in> set out'. float_le (sf_penetration r) 90 \<or> sf_penetration r = NotANumber"
    by simp
  assume fin: "is_finite (sp_growth tc) \<and>
    (\<forall>item \<in> set data. is_finite (smartphone_penetration item))"
  then have g: "is_finite (sp_growth tc)"
    and d: "\<forall>item \<in> set data. is_finite (smartphone_penetration item)" by blast+
  from smartphones_items_finite [OF l g d]
  show "\<forall>r \<in> set out'. float_le (sf_penetration r) 90"
    by simp
qed

lemma example_forecast:
  "forecast_linear example_circle example_history 2019 2022 4 =
   Inr [\<lparr>fc_tc_code = ''AP'', fc_category = ''A'', fc_year = 2019,
         fc_penetration = Num (9384 / 100)\<rparr>,
        \<lparr>fc_tc_code = ''AP'', fc_category = ''A'', fc_year = 2020, fc_penetration = Num 95\<rparr>,
        \<lparr>fc_tc_code = ''AP'', fc_category = ''A'', fc_year = 2021, fc_penetration = Num 95\<rparr>,
        \<lparr>fc_tc_code = ''AP'', fc_category = ''A'', fc_year = 2022, fc_penetration = Num 95\<rparr>]"
  by code_simp

lemma example_smartphone_forecast:
  "forecast_smartphones_linear example_survey example_circle 2020 2022 =
   Inr [\<lparr>sf_tc_code = ''AP'', sf_category = ''A'', sf_settlement_type = ''urban'',
         sf_year = 2020, sf_penetration = Num 85\<rparr>,
        \<lparr>sf_tc_code = ''AP'', sf_category = ''A'', sf_settlement_type = ''urban'',
         sf_year = 2021, sf_penetration = Num 90\<rparr>,
        \<lparr>sf_tc_code = ''AP'', sf_category = ''A'', sf_settlement_type = ''urban'',
         sf_year = 2022, sf_penetration = Num 90\<rparr>]"
  by code_simp

lemma example_inputs_finite:
  "is_finite (subs_growth example_circle) \<and> is_finite (sp_growth example_circle) \<and>
   (\<forall>row \<in> set example_history. is_finite (sub_penetration row)) \<and>
   (\<forall>item \<in> set example_survey. is_finite (smartphone_penetration item))"
  by (simp add: example_circle_def example_history_def example_survey_def)

theorem forecast_penetration_capped_witness:
  "(\<exists>out. forecast_linear example_circle example_history 2019 2022 4 = Inr out \<and>
      out \<noteq> [] \<and> is_finite (subs_growth example_circle) \<and>
      list_all is_finite (map sub_penetration example_history) \<and>
      (\<forall>r \<in> set out. float_le (fc_penetration r) 95)) \<and>
   (\<exists>out'. forecast_smartphones_linear example_survey example_circle 2020 2022 = Inr out' \<and>
      out' \<noteq> [] \<and> is_finite (sp_growth example_circle) \<and>
      list_all is_finite (map smartphone_penetration example_survey) \<and>
      (\<forall>r \<in> set out'. float_le (sf_penetration r) 90))"
proof (intro conjI)
  from example_forecast obtain out where
    o: "forecast_linear example_circle example_history 2019 2022 4 = Inr out" and
    n: "out \<noteq> []"
    by blast
  from forecast_penetration_capped [where out = out] o example_inputs_finite
  have "\<forall>r \<in> set out. float_le (fc_penetration r) 95"
    by blast
  moreover have "list_all is_finite (map sub_penetration example_history)"
    by (simp add: example_history_def)
  ultimately show "\<exists>out. forecast_linear example_circle example_history 2019 2022 4 = Inr out \<and>
      out \<noteq> [] \<and> is_finite (subs_growth example_circle) \<and>
      list_all is_finite (map sub_penetration example_history) \<and>
      (\<forall>r \<in> set out. float_le (fc_penetration r) 95)"
    using o n example_inputs_finite by blast
next
  from example_smartphone_forecast obtain out' where
    o: "forecast_smartphones_linear example_survey example_circle 2020 2022 = Inr out'" and
    n: "out' \<noteq> []"
    by blast
  from forecast_penetration_capped [where out' = out'] o example_inputs_finite
  have "\<forall>r \<in> set out'. float_le (sf_penetration r) 90"
    by blast
  moreover have "list_all is_finite (map smartphone_penetration example_survey)"
    by (simp add: example_survey_def)
  ultimately show "\<exists>out'. forecast_smartphones_linear example_survey example_circle 2020 2022 =
      Inr out' \<and> out' \<noteq> [] \<and> is_finite (sp_growth example_circle) \<and>
      list_all is_finite (map smartphone_penetration example_survey) \<and>
      (\<forall>r \<in> set out'. float_le (sf_penetration r) 90)"
    using o n example_inputs_finite by blast
qed

text \<open>
  The claim as it is written fails on a NaN. \<^verbatim>\<open>load_subscription_data\<close> takes
  \<^verbatim>\<open>float(item[year])\<close> of each cell, which is a NaN for an empty one. With a NaN in the
  latest year of the history, \<^verbatim>\<open>penetration > 95\<close> is false in every year, the value is
  never capped, and \<^verbatim>\<open>round(nan, 2)\<close> is emitted; \<^verbatim>\<open>nan <= 95\<close> is false. The
  smartphone forecast emits a NaN survey value in the same way.
\<close>

theorem forecast_nan_counterexample:
  "forecast_linear example_circle example_history_nan 2019 2020 4 =
   Inr [\<lparr>fc_tc_code = ''AP'', fc_category = ''A'', fc_year = 2019,
         fc_penetration = NotANumber\<rparr>,
        \<lparr>fc_tc_code = ''AP'', fc_category = ''A'', fc_year = 2020,
         fc_penetration = NotANumber\<rparr>] \<and>
   \<not> float_le NotANumber 95 \<and>
   forecast_smartphones_linear example_survey_nan example_circle 2020 2021 =
   Inr [\<lparr>sf_tc_code = ''AP'', sf_category = ''A'', sf_settlement_type = ''rural'',
         sf_year = 2020, sf_penetration = NotANumber\<rparr>,
        \<lparr>sf_tc_code = ''AP'', sf_category = ''A'', sf_settlement_type = ''rural'',
         sf_year = 2021, sf_penetration = NotANumber\<rparr>] \<and>
   \<not> float_le NotANumber 90"
  by code_simp

subsection \<open>The backhaul counts of a region\<close>

lemma assign_backhaul_nonneg:
  "assign_backhaul lut num c = Inr c' \<Longrightarrow> counts_nonneg c \<Longrightarrow> counts_nonneg c'"
  by (auto simp: assign_backhaul_def chained_def getitem_def counts_nonneg_def
      split: option.splits sum.splits if_splits bool.splits)

text \<open>
  With non-decreasing fractions the four branches cover every number, so each draw adds one
  to exactly one count.
\<close>

lemma assign_backhaul_sum:
  "assign_backhaul lut num c = Inr c' \<Longrightarrow> nondecreasing lut \<Longrightarrow>
   counts_sum c' = counts_sum c + 1"
  by (auto simp: assign_backhaul_def chained_def getitem_def counts_sum_def nondecreasing_def
      split: option.splits sum.splits if_splits bool.splits)

lemma backhaul_loop_nonneg:
  "backhaul_loop lut rng n k c = Inr c' \<Longrightarrow> counts_nonneg c \<Longrightarrow> counts_nonneg c'"
proof (induction n arbitrary: k c)
  case 0
  then show ?case by simp
next
  case (Suc n)
  from Suc.prems(1) obtain c1 where
    a: "assign_backhaul lut (rng k) c = Inr c1" and
    r: "backhaul_loop lut rng n (Suc k) c1 = Inr c'"
    by (auto split: sum.splits)
  from assign_backhaul_nonneg [OF a Suc.prems(2)] Suc.IH [OF r] show ?case by blast
qed

lemma backhaul_loop_sum:
  "backhaul_loop lut rng n k c = Inr c' \<Longrightarrow> nondecreasing lut \<Longrightarrow>
   counts_sum c' = counts_sum c + int n"
proof (induction n arbitrary: k c)
  case 0
  then show ?case by simp
next
  case (Suc n)
  from Suc.prems(1) obtain c1 where
    a: "assign_backhaul lut (rng k) c = Inr c1" and
    r: "backhaul_loop lut rng n (Suc k) c1 = Inr c'"
    by (auto split: sum.splits)
  from assign_backhaul_sum [OF a Suc.prems(2)] Suc.IH [OF r Suc.prems(2)] show ?case by simp
qed

lemma estimate_sites_loop_ok:
  "estimate_sites_loop pc tpp lut rng regions covered k outp = Inr out \<Longrightarrow>
   \<forall>r \<in> set outp. backhaul_ok lut r \<Longrightarrow>
   \<forall>r \<in> set out. backhaul_ok lut r"
proof (induction regions arbitrary: covered k outp)
  case Nil
  then show ?case by simp
next
  case (Cons region regions)
  let ?e = "if covered < pc
            then (case population region of
                    None \<Rightarrow> Inl TypeError
                  | Some p \<Rightarrow>
                      (case tpp of
                         Fin q \<Rightarrow> Inr (py_round_int (p * q), population_km2 region * q)
                       | Inf \<Rightarrow> if p = 0 then Inl ValueError else Inl OverflowError
                       | NaN \<Rightarrow> Inl ValueError))
            else Inr (0, 0)"
  from Cons.prems(1) obtain st skm where e: "?e = Inr (st, skm)"
    by (cases ?e) auto
  let ?z = "\<lparr>n_fiber = 0, n_copper = 0, n_wireless = 0, n_satellite = 0\<rparr>"
  from Cons.prems(1) e obtain c where c: "backhaul_loop lut rng (nat st) k ?z = Inr c"
    by (cases "backhaul_loop lut rng (nat st) k ?z") (simp_all del: backhaul_loop.simps)
  let ?rec = "\<lparr>GID_0 = GID_0 region, GID_id = GID_id region,
                     GID_level = GID_level region,
                     mean_luminosity_km2 = mean_luminosity_km2 region,
                     population = population region, area_km2 = area_km2 region,
                     population_km2 = population_km2 region,
                     coverage_GSM_percent = coverage_GSM_percent region,
                     coverage_3G_percent = coverage_3G_percent region,
                     coverage_4G_percent = coverage_4G_percent region,
                     sites_estimated_total = st,
                     sites_estimated_km2 = skm,
                     sites_3G =
                       py_round_int (of_int st * (coverage_3G_percent region / 100)),
                     sites_4G =
                       py_round_int (of_int st * (coverage_4G_percent region / 100)),
                     backhaul_fiber = n_fiber c, backhaul_copper = n_copper c,
                     backhaul_wireless = n_wireless c,
                     backhaul_satellite = n_satellite c\<rparr>"
  from Cons.prems(1) e c have run:
    "estimate_sites_loop pc tpp lut rng regions
       (case population region of None \<Rightarrow> covered | Some p \<Rightarrow> covered + p)
       (k + nat st) (outp @ [?rec]) = Inr out"
    by (simp del: backhaul_loop.simps)
  have z: "counts_nonneg ?z" by (simp add: counts_nonneg_def)
  have nn: "counts_nonneg c" by (rule backhaul_loop_nonneg [OF c z])
  have sm: "nondecreasing lut \<Longrightarrow> counts_sum c = int (nat st)"
    using backhaul_loop_sum [OF c] by (simp add: counts_sum_def)
  have "backhaul_ok lut ?rec"
    using nn sm by (auto simp: backhaul_ok_def counts_nonneg_def counts_sum_def)
  with Cons.prems(2) have "\<forall>r \<in> set (outp @ [?rec]). backhaul_ok lut r" by simp
  with Cons.IH [OF run] show ?case by blast
qed

text \<open>
  The hypothesis on the fractions is the usual case: shares that are not negative, with
  fiber, copper and wireless all in the table, give non-decreasing fractions.
\<close>

lemma backhaul_type_items_nomatch:
  "\<forall>i \<in> set items. lower (tech i) \<noteq> t \<Longrightarrow> backhaul_type_items t items st = st"
  by (induction t items st rule: backhaul_type_items.induct) auto

lemma backhaul_type_items_step:
  "backhaul_type_items t items (out, s) = (out', s') \<Longrightarrow>
   \<forall>i \<in> set items. 0 \<le> percentage i \<Longrightarrow>
   s \<le> s' \<and> (\<forall>k. k \<noteq> t \<longrightarrow> out' k = out k) \<and>
   ((\<exists>i \<in> set items. lower (tech i) = t) \<longrightarrow> out' t = Some (of_int s' / 100))"
proof (induction items arbitrary: out s)
  case Nil
  then show ?case by simp
next
  case (Cons i items)
  show ?case
  proof (cases "t = lower (tech i)")
    case True
    let ?o = "out(t \<mapsto> of_int (percentage i + s) / 100)"
    from Cons.prems(1) True have run:
      "backhaul_type_items t items (?o, s + percentage i) = (out', s')" by simp
    from Cons.prems(2) have nn: "\<forall>i \<in> set items. 0 \<le> percentage i" and p: "0 \<le> percentage i"
      by simp_all
    note ih = Cons.IH [OF run nn]
    show ?thesis
    proof (cases "\<exists>j \<in> set items. lower (tech j) = t")
      case True
      with ih p show ?thesis by auto
    next
      case False
      then have "backhaul_type_items t items (?o, s + percentage i) = (?o, s + percentage i)"
        by (intro backhaul_type_items_nomatch) auto
      with run have "out' = ?o" "s' = s + percentage i" by simp_all
      with p show ?thesis by (simp add: add.commute)
    qed
  next
    case False
    from Cons.prems(1) False have run: "backhaul_type_items t items (out, s) = (out', s')"
      by simp
    from Cons.prems(2) have nn: "\<forall>i \<in> set items. 0 \<le> percentage i" by simp
    from Cons.IH [OF run nn] False show ?thesis by auto
  qed
qed

lemma nonnegative_shares_nondecreasing:
  assumes nn: "\<forall>i \<in> set backhaul_lut. 0 \<le> percentage i"
    and f: "\<exists>i \<in> set backhaul_lut. lower (tech i) = ''fiber''"
    and c: "\<exists>i \<in> set backhaul_lut. lower (tech i) = ''copper''"
    and w: "\<exists>i \<in> set backhaul_lut. lower (tech i) = ''wireless''"
  shows "nondecreasing (estimate_backhaul_type backhaul_lut)"
proof -
  obtain o1 s1 where r1: "backhaul_type_items ''fiber'' backhaul_lut (Map.empty, 0) = (o1, s1)"
    by (cases "backhaul_type_items ''fiber'' backhaul_lut (Map.empty, 0)")
  obtain o2 s2 where r2: "backhaul_type_items ''copper'' backhaul_lut (o1, s1) = (o2, s2)"
    by (cases "backhaul_type_items ''copper'' backhaul_lut (o1, s1)")
  obtain o3 s3 where r3: "backhaul_type_items ''wireless'' backhaul_lut (o2, s2) = (o3, s3)"
    by (cases "backhaul_type_items ''wireless'' backhaul_lut (o2, s2)")
  obtain o4 s4 where r4: "backhaul_type_items ''satellite'' backhaul_lut (o3, s3) = (o4, s4)"
    by (cases "backhaul_type_items ''satellite'' backhaul_lut (o3, s3)")
  note a1 = backhaul_type_items_step [OF r1 nn]
  note a2 = backhaul_type_items_step [OF r2 nn]
  note a3 = backhaul_type_items_step [OF r3 nn]
  note a4 = backhaul_type_items_step [OF r4 nn]
  have e: "estimate_backhaul_type backhaul_lut = o4"
    by (simp add: estimate_backhaul_type_def preference_def r1 r2 r3 r4)
  have fv: "o4 ''fiber'' = Some (of_int s1 / 100)" using a1 a2 a3 a4 f by simp
  have cv: "o4 ''copper'' = Some (of_int s2 / 100)" using a2 a3 a4 c by simp
  have wv: "o4 ''wireless'' = Some (of_int s3 / 100)" using a3 a4 w by simp
  have "s1 \<le> s2" "s2 \<le> s3" using a2 a3 by simp_all
  then have "(of_int s1 :: rat) / 100 \<le> of_int s2 / 100" "(of_int s2 :: rat) / 100 \<le> of_int s3 / 100"
    by simp_all
  with e fv cv wv show ?thesis by (simp add: nondecreasing_def)
qed

text \<open>
  Claim C10, as amended. In every record that \<^verbatim>\<open>estimate_sites\<close> returns, the four
  backhaul counts are non-negative and, when the cumulative fractions of
  \<^verbatim>\<open>estimate_backhaul_type\<close> are non-decreasing in the order fiber, copper, wireless,
  their sum is \<^verbatim>\<open>max(0, sites_estimated_total)\<close>, whatever numbers are drawn: it is
  \<^verbatim>\<open>sites_estimated_total\<close> when that estimate is not negative, and 0 otherwise, since
  the loop over \<^verbatim>\<open>range(1, sites_estimated_total + 1)\<close> runs no iteration then.
\<close>

theorem estimate_sites_backhaul_counts:
  "estimate_sites data coverage towers backhaul_lut rng = Inr out \<Longrightarrow> r \<in> set out \<Longrightarrow>
   0 \<le> backhaul_fiber r \<and> 0 \<le> backhaul_copper r \<and> 0 \<le> backhaul_wireless r \<and>
   0 \<le> backhaul_satellite r \<and>
   (nondecreasing (estimate_backhaul_type backhaul_lut) \<longrightarrow>
      backhaul_fiber r + backhaul_copper r + backhaul_wireless r + backhaul_satellite r =
      max 0 (sites_estimated_total r))"
  using estimate_sites_loop_ok [of _ _ "estimate_backhaul_type backhaul_lut" rng _ 0 0 "[]" out]
  by (simp add: estimate_sites_def Let_def backhaul_ok_def)

lemma example_fractions: "nondecreasing (estimate_backhaul_type example_backhaul_lut)"
  by code_simp

text \<open>
  Four towers for a covered population of 1000: the region gets four sites, and the draws
  0, 1/4, 1/2 and 3/4 make three fibre links and one wireless link.
\<close>

lemma example_estimate:
  "estimate_sites example_data 100 4 example_backhaul_lut example_draws =
   Inr [\<lparr>GID_0 = ''IND'', GID_id = ''IND.1.1_1'', GID_level = ''GID_3'',
         mean_luminosity_km2 = 1, population = Some 1000, area_km2 = 100,
         population_km2 = 10, coverage_GSM_percent = 90, coverage_3G_percent = 50,
         coverage_4G_percent = 25,
         sites_estimated_total = 4, sites_estimated_km2 = 1 / 25, sites_3G = 2,
         sites_4G = 1, backhaul_fiber = 3, backhaul_copper = 0, backhaul_wireless = 1,
         backhaul_satellite = 0\<rparr>]"
  by code_simp

theorem estimate_sites_backhaul_counts_witness:
  "nondecreasing (estimate_backhaul_type example_backhaul_lut) \<and>
   (\<exists>r. estimate_sites example_data 100 4 example_backhaul_lut example_draws = Inr [r] \<and>
      sites_estimated_total r = 4 \<and>
      0 \<le> backhaul_fiber r \<and> 0 \<le> backhaul_copper r \<and> 0 \<le> backhaul_wireless r \<and>
      0 \<le> backhaul_satellite r \<and>
      backhaul_fiber r + backhaul_copper r + backhaul_wireless r + backhaul_satellite r =
      max 0 (sites_estimated_total r))"
proof -
  from example_estimate obtain r where
    e: "estimate_sites example_data 100 4 example_backhaul_lut example_draws = Inr [r]" and
    t: "sites_estimated_total r = 4"
    by simp
  have "r \<in> set [r]" by simp
  from estimate_sites_backhaul_counts [OF e this] example_fractions e t
  show ?thesis by blast
qed

text \<open>
  The claim as it is written fails on a negative estimate. A tower count of -1 for a
  covered population of 1000 gives the region \<^verbatim>\<open>sites_estimated_total = -1\<close>; the loop
  runs no iteration and the four counts stay 0, so their sum is not the estimate, though
  the fractions 0.5, 0.7 and 0.9 are non-decreasing.
\<close>

theorem estimate_sites_negative_estimate_counterexample:
  "nondecreasing (estimate_backhaul_type example_backhaul_lut) \<and>
   estimate_sites example_data 100 (- 1) example_backhaul_lut example_draws =
   Inr [\<lparr>GID_0 = ''IND'', GID_id = ''IND.1.1_1'', GID_level = ''GID_3'',
         mean_luminosity_km2 = 1, population = Some 1000, area_km2 = 100,
         population_km2 = 10, coverage_GSM_percent = 90, coverage_3G_percent = 50,
         coverage_4G_percent = 25,
         sites_estimated_total = - 1, sites_estimated_km2 = - (1 / 100), sites_3G = 0,
         sites_4G = 0, backhaul_fiber = 0, backhaul_copper = 0, backhaul_wireless = 0,
         backhaul_satellite = 0\<rparr>] \<and>
   (0 :: int) + 0 + 0 + 0 \<noteq> - 1"
  by code_simp

subsection \<open>The allocators of regional and core network costs\<close>

text \<open>
  The value of an allocation: the quantity of the look-up table times the unit cost, over
  the sites per network.
\<close>

lemma net_costs_value:
  assumes "asset_type \<in> set lut_assets" and "sites_estimated_total r \<noteq> 0"
    and "sharing_factor cp r \<noteq> 0"
    and "core_lut asset_type = Some by_region"
    and "by_region (GID_id r @ ''_new'') = Some quantity"
    and "unit_cost_key asset_type strategy = Inr key" and "costs key = Some unit_cost"
  shows "net_costs r asset_type costs core_lut strategy cp =
         Inr (Cost (unit_cost * quantity / (of_int (sites_estimated_total r) / sharing_factor cp r)))"
  using assms by (simp add: net_costs_def getitem_def py_truediv_def)

lemma net_costs_missing_region:
  assumes "asset_type \<in> set lut_assets" and "core_lut asset_type = Some by_region"
    and "by_region (GID_id r @ ''_new'') = None"
  shows "net_costs r asset_type costs core_lut strategy cp = Inr (Cost 0)"
  using assms by (simp add: net_costs_def)

text \<open>
  The model at the inputs of \<^verbatim>\<open>test_regional_net_costs\<close> and \<^verbatim>\<open>test_core_costs\<close>: six
  sites over three networks; two sites over two networks, where the allocation is the
  unit cost times the quantity; and a region that the look-up table does not know.
\<close>

lemma example_regional_edge:
  "regional_net_costs example_region ''regional_edge'' example_costs example_core_lut
     ''4G_epc_wireless_baseline_baseline_baseline_baseline'' example_country_parameters =
   Inr (Cost (5 * 1000 / (6 / 3)))"
  by code_simp

lemma example_regional_node:
  "regional_net_costs example_region ''regional_node'' example_costs example_core_lut
     ''4G_epc_wireless_baseline_baseline_baseline_baseline'' example_country_parameters =
   Inr (Cost (100000 * 2 / (6 / 3)))"
  by code_simp

lemma example_core_edge:
  "core_costs (example_region\<lparr>sites_estimated_total := 2\<rparr>) ''core_edge'' example_costs
     example_core_lut ''4G_epc_wireless_baseline_baseline_baseline_baseline''
     (example_country_parameters\<lparr>baseline_urban := 2\<rparr>) =
   Inr (Cost (10 * 1000))"
  by code_simp

lemma example_core_node:
  "core_costs (example_region\<lparr>sites_estimated_total := 2\<rparr>) ''core_node'' example_costs
     example_core_lut ''4G_epc_wireless_baseline_baseline_baseline_baseline''
     (example_country_parameters\<lparr>baseline_urban := 2\<rparr>) =
   Inr (Cost (100000 * 2))"
  by code_simp

lemma example_unknown_region:
  "regional_net_costs (example_region\<lparr>GID_id := ''unknown GID ID''\<rparr>) ''regional_node''
     example_costs example_core_lut ''4G_epc_wireless_baseline_baseline_baseline_baseline''
     example_country_parameters =
   Inr (Cost 0)"
  by code_simp

text \<open>
  Claim C5. For each of the four asset types, and every cost catalog, look-up table,
  strategy and country parameters, \<^verbatim>\<open>regional_net_costs\<close> and \<^verbatim>\<open>core_costs\<close> return
  exactly 0 for a region whose \<^verbatim>\<open>sites_estimated_total\<close> is 0. No division is evaluated
  on the way: the result is 0 also where the sharing factor is 0, on which a division
  would raise.
\<close>

theorem no_sites_no_cost:
  "asset_type \<in> set lut_assets \<Longrightarrow> sites_estimated_total r = 0 \<Longrightarrow>
   regional_net_costs r asset_type costs core_lut strategy cp = Inr (Cost 0) \<and>
   core_costs r asset_type costs core_lut strategy cp = Inr (Cost 0)"
  by (simp add: regional_net_costs_def core_costs_def net_costs_def)

text \<open>With sites and no networks the division does raise.\<close>

lemma example_no_networks:
  "regional_net_costs example_region ''regional_node'' example_costs example_core_lut
     ''4G_epc_wireless_baseline_baseline_baseline_baseline''
     (example_country_parameters\<lparr>baseline_urban := 0\<rparr>) =
   Inl ZeroDivisionError"
  by code_simp

theorem no_sites_no_cost_witness:
  "''regional_node'' \<in> set lut_assets \<and>
   sites_estimated_total (example_region\<lparr>sites_estimated_total := 0\<rparr>) = 0 \<and>
   regional_net_costs (example_region\<lparr>sites_estimated_total := 0\<rparr>) ''regional_node''
     example_costs example_core_lut ''4G_epc_wireless_baseline_baseline_baseline_baseline''
     (example_country_parameters\<lparr>baseline_urban := 0\<rparr>) = Inr (Cost 0) \<and>
   core_costs (example_region\<lparr>sites_estimated_total := 0\<rparr>) ''regional_node''
     example_costs example_core_lut ''4G_epc_wireless_baseline_baseline_baseline_baseline''
     (example_country_parameters\<lparr>baseline_urban := 0\<rparr>) = Inr (Cost 0)"
proof -
  have a: "''regional_node'' \<in> set lut_assets" by (simp add: lut_assets_def)
  have s: "sites_estimated_total (example_region\<lparr>sites_estimated_total := 0\<rparr>) = 0" by simp
  from a s no_sites_no_cost [OF a s] show ?thesis by blast
qed

end
